theory Spec2Isabelle
  imports Main "HOL-Library.Word"
begin

section \<open>Python values, exceptions and strings\<close>

text \<open>
  The device server \<^verbatim>\<open>TwincatAds.py\<close> is glue between a Tango device and a
  TwinCAT PLC reached through pyads. Exceptions are values of \<open>error\<close>; a method that
  mutates the device and may raise returns the outcome together with the device as it is
  at that moment, since a Python exception undoes no assignment made before it.
\<close>

datatype error = ValueError | KeyError | IndexError | AttributeError | ADSError

text \<open>
  What \<^verbatim>\<open>symbol.read()\<close> hands back for a scalar symbol, and its \<^verbatim>\<open>type(...)\<close>.
  The code never calculates with a float, so the carrier of floats is a type parameter.
\<close>

datatype 'f pyvalue = PyBool bool | PyInt int | PyFloat 'f | PyStr string

datatype pytype = Bool_t | Int_t | Float_t | Str_t

fun type_of :: "'f pyvalue \<Rightarrow> pytype" where
  "type_of (PyBool b) = Bool_t"
| "type_of (PyInt i) = Int_t"
| "type_of (PyFloat x) = Float_t"
| "type_of (PyStr s) = Str_t"

text \<open>
  A Python \<^verbatim>\<open>str\<close> is a list of characters, here with code points below 256.
  \<^verbatim>\<open>str.isspace\<close> holds in that range for the code points 9 to 13, 28 to 32, 133 and 160;
  \<^verbatim>\<open>s.strip()\<close> removes such characters at both ends; \<^verbatim>\<open>s.split(',')\<close> cuts at every
  separator and gives one field more than there are separators.
\<close>

definition str_isspace :: "char \<Rightarrow> bool" where
  "str_isspace c = (of_char c \<in> set [9, 10, 11, 12, 13, 28, 29, 30, 31, 32, 133, 160 :: nat])"

definition str_strip :: "string \<Rightarrow> string" where
  "str_strip s = rev (dropWhile str_isspace (rev (dropWhile str_isspace s)))"

fun str_split :: "char \<Rightarrow> string \<Rightarrow> string list" where
  "str_split sep [] = [[]]"
| "str_split sep (c # cs) =
     (if c = sep then [] # str_split sep cs
      else (case str_split sep cs of
              [] \<Rightarrow> [[c]]
            | w # ws \<Rightarrow> (c # w) # ws))"

section \<open>The collaborators: pyads and Tango\<close>

text \<open>
  \<^verbatim>\<open>pyads.PLCTYPE_REAL\<close> is \<^verbatim>\<open>ctypes.c_float\<close>. The product \<^verbatim>\<open>n * c_float\<close> is the
  ctypes array type of \<open>n\<close> floats, and ctypes raises \<^verbatim>\<open>ValueError\<close> for a negative \<open>n\<close>.
\<close>

datatype ctype = C_float | C_array ctype nat

definition PLCTYPE_REAL :: ctype where
  "PLCTYPE_REAL = C_float"

definition ctype_repeat :: "int \<Rightarrow> ctype \<Rightarrow> error + ctype" where
  "ctype_repeat n t = (if n < 0 then Inl ValueError else Inr (C_array t (nat n)))"

text \<open>
  The PLC connection \<^verbatim>\<open>self.plc\<close> and the symbol handles it gives out are not part of the
  repository. They are a record of their methods over an arbitrary PLC state \<open>'p\<close> and an
  arbitrary handle type \<open>'h\<close>: \<^verbatim>\<open>plc.get_symbol(name)\<close>, \<^verbatim>\<open>symbol.array_size\<close>,
  \<^verbatim>\<open>symbol.read()\<close>, \<^verbatim>\<open>symbol.write(value)\<close> and \<^verbatim>\<open>plc.read_by_name(name, type)\<close>.
  Each may raise; only a write changes the PLC.
\<close>

record ('p, 'h, 'f) connection =
  get_symbol :: "'p \<Rightarrow> string \<Rightarrow> error + 'h"
  array_size :: "'h \<Rightarrow> int"
  symbol_read :: "'h \<Rightarrow> 'p \<Rightarrow> error + 'f pyvalue"
  symbol_write :: "'h \<Rightarrow> 'f pyvalue \<Rightarrow> 'p \<Rightarrow> error + 'p"
  read_by_name :: "string \<Rightarrow> ctype \<Rightarrow> 'p \<Rightarrow> error + 'f list"

text \<open>
  A Tango attribute as \<^verbatim>\<open>attribute(name=, dtype=, access=, fget=, fset=)\<close> builds it.
  The two handlers of the class are named; \<open>None\<close> stands for a keyword left out.
\<close>

datatype AttrWriteType = READ | READ_WRITE

datatype handler = Generic_read | Generic_write

record attribute =
  attr_name :: string
  attr_dtype :: pytype
  attr_access :: AttrWriteType
  attr_fget :: "handler option"
  attr_fset :: "handler option"

section \<open>The device\<close>

text \<open>
  The state of a \<^verbatim>\<open>TwincatAds\<close> device that the methods touch: the dictionary
  \<^verbatim>\<open>symbols\<close>, the attributes passed to \<^verbatim>\<open>add_attribute\<close> in the order of the calls, and
  the lines printed to \<^verbatim>\<open>log_debug\<close>. The dictionary is an attribute of the class, so it
  may hold entries before the loop starts; a device that starts has no attribute yet.
  The log streams of a Tango device are \<^verbatim>\<open>log_debug\<close>, \<^verbatim>\<open>log_info\<close>, \<^verbatim>\<open>log_warn\<close>,
  \<^verbatim>\<open>log_error\<close> and \<^verbatim>\<open>log_fatal\<close>; the class adds none, so the device has no
  \<^verbatim>\<open>log_warning\<close>.
\<close>

record 'h device =
  symbols :: "string \<rightharpoonup> 'h"
  attributes :: "attribute list"
  log_debug :: "string list"

definition new_device :: "'h device" where
  "new_device = \<lparr>symbols = Map.empty, attributes = [], log_debug = []\<rparr>"

text \<open>
  The line the loop prints to the debug log: \<^verbatim>\<open>f"init: {name}, {label}, {access}"\<close>.
\<close>

definition init_message :: "string \<Rightarrow> string \<Rightarrow> string \<Rightarrow> string" where
  "init_message name label access = ''init: '' @ name @ '', '' @ label @ '', '' @ access"

text \<open>
  One turn of the loop of \<^verbatim>\<open>initialize_dynamic_attributes\<close>. Unpacking into three names
  raises \<^verbatim>\<open>ValueError\<close> unless the line has exactly three fields. The handle is stored
  under the label before its size is looked at. For a size above 1 the code goes on to
  \<^verbatim>\<open>print(f"{name} is not a scalar. Ignoring.", file=self.log_warning)\<close>: the arguments are
  evaluated before \<^verbatim>\<open>print\<close> is called, and looking up \<^verbatim>\<open>self.log_warning\<close> raises
  \<^verbatim>\<open>AttributeError\<close>, so nothing is printed and \<^verbatim>\<open>continue\<close> is not reached.
\<close>

definition process_line ::
    "('p, 'h, 'f) connection \<Rightarrow> 'p \<Rightarrow> string \<Rightarrow> 'h device \<Rightarrow> (error + unit) \<times> 'h device" where
  "process_line plc p line dev =
     (case map str_strip (str_split (CHR '','') line) of
        [name, label, access] \<Rightarrow>
          (let dev1 = dev\<lparr>log_debug := log_debug dev @ [init_message name label access]\<rparr>
           in case get_symbol plc p name of
                Inl e \<Rightarrow> (Inl e, dev1)
              | Inr symbol \<Rightarrow>
                  (let dev2 = dev1\<lparr>symbols := (symbols dev1)(label \<mapsto> symbol)\<rparr>;
                       size = array_size plc symbol
                   in if size > 1
                      then (Inl AttributeError, dev2)
                      else (case symbol_read plc symbol p of
                              Inl e \<Rightarrow> (Inl e, dev2)
                            | Inr v \<Rightarrow>
                                (let attr = \<lparr>attr_name = label,
                                             attr_dtype = type_of v,
                                             attr_access = (if access = ''rw'' then READ_WRITE
                                                            else READ),
                                             attr_fget = Some Generic_read,
                                             attr_fset = Some Generic_write\<rparr>
                                 in (Inr (), dev2\<lparr>attributes := attributes dev2 @ [attr]\<rparr>)))))
      | _ \<Rightarrow> (Inl ValueError, dev))"

fun initialize_dynamic_attributes ::
    "('p, 'h, 'f) connection \<Rightarrow> 'p \<Rightarrow> string list \<Rightarrow> 'h device \<Rightarrow> (error + unit) \<times> 'h device" where
  "initialize_dynamic_attributes plc p [] dev = (Inr (), dev)"
| "initialize_dynamic_attributes plc p (line # scalar_symbols) dev =
     (case process_line plc p line dev of
        (Inl e, dev') \<Rightarrow> (Inl e, dev')
      | (Inr u, dev') \<Rightarrow> initialize_dynamic_attributes plc p scalar_symbols dev')"

text \<open>
  \<^verbatim>\<open>generic_read\<close> and \<^verbatim>\<open>generic_write\<close> get the attribute's name from the framework
  and index \<^verbatim>\<open>self.symbols\<close> with it, which raises \<^verbatim>\<open>KeyError\<close> for a missing key.
\<close>

definition generic_read ::
    "('p, 'h, 'f) connection \<Rightarrow> 'h device \<Rightarrow> string \<Rightarrow> 'p \<Rightarrow> error + 'f pyvalue" where
  "generic_read plc dev name p =
     (case symbols dev name of
        None \<Rightarrow> Inl KeyError
      | Some symbol \<Rightarrow> symbol_read plc symbol p)"

definition generic_write ::
    "('p, 'h, 'f) connection \<Rightarrow> 'h device \<Rightarrow> string \<Rightarrow> 'f pyvalue \<Rightarrow> 'p \<Rightarrow> error + 'p" where
  "generic_write plc dev name v p =
     (case symbols dev name of
        None \<Rightarrow> Inl KeyError
      | Some symbol \<Rightarrow> symbol_write plc symbol v p)"

text \<open>
  Modelled from the spec: the dispatch of a client's write to an attribute, which is the
  work of the hosting framework and is not in the repository. The spec has every dynamic
  attribute "writable iff declared \<^verbatim>\<open>rw\<close>" and says that an endpoint with access
  \<^verbatim>\<open>ro\<close> "must reject write attempts (framework-level access violation)". So a write to
  an attribute of access \<open>READ\<close> is rejected before any handler is looked at; a write to
  one of access \<open>READ_WRITE\<close> calls the setter bound to the attribute, with the
  attribute's name and the client's value, and finds no one to call when none is bound.
\<close>

datatype 'a dispatch = Access_violation | No_handler | Called 'a

fun call_setter ::
    "('p, 'h, 'f) connection \<Rightarrow> 'h device \<Rightarrow> handler \<Rightarrow> string \<Rightarrow> 'f pyvalue \<Rightarrow> 'p
       \<Rightarrow> error + 'p" where
  "call_setter plc dev Generic_write name v p = generic_write plc dev name v p"
| "call_setter plc dev Generic_read name v p =
     (case generic_read plc dev name p of
        Inl e \<Rightarrow> Inl e
      | Inr x \<Rightarrow> Inr p)"

definition client_write ::
    "('p, 'h, 'f) connection \<Rightarrow> 'h device \<Rightarrow> attribute \<Rightarrow> 'f pyvalue \<Rightarrow> 'p
       \<Rightarrow> (error + 'p) dispatch" where
  "client_write plc dev a v p =
     (case attr_access a of
        READ \<Rightarrow> Access_violation
      | READ_WRITE \<Rightarrow>
          (case attr_fset a of
             None \<Rightarrow> No_handler
           | Some h \<Rightarrow> Called (call_setter plc dev h (attr_name a) v p)))"

text \<open>
  The command \<^verbatim>\<open>read_float_array\<close>. Its argument is a \<^verbatim>\<open>DevVarLongStringArray\<close>: an
  array of 32-bit integers and an array of strings. \<^verbatim>\<open>argin[0][0]\<close> and \<^verbatim>\<open>argin[1][0]\<close>
  raise \<^verbatim>\<open>IndexError\<close> on an empty array; the array type is built before the call of
  \<^verbatim>\<open>read_by_name\<close>; \<^verbatim>\<open>np.array\<close> keeps the values and their order. The device is an
  argument as \<^verbatim>\<open>self\<close> is, and the body never reads \<^verbatim>\<open>self.symbols\<close>.
\<close>

definition np_array :: "'a list \<Rightarrow> 'a list" where
  "np_array values = values"

definition read_float_array ::
    "('p, 'h, 'f) connection \<Rightarrow> 'h device \<Rightarrow> 'p \<Rightarrow> 32 word list \<times> string list
       \<Rightarrow> error + 'f list" where
  "read_float_array plc dev p argin =
     (case fst argin of
        [] \<Rightarrow> Inl IndexError
      | npts # _ \<Rightarrow>
          (case snd argin of
             [] \<Rightarrow> Inl IndexError
           | name # _ \<Rightarrow>
               (case ctype_repeat (sint npts) PLCTYPE_REAL of
                  Inl e \<Rightarrow> Inl e
                | Inr t \<Rightarrow>
                    (case read_by_name plc name t p of
                       Inl e \<Rightarrow> Inl e
                     | Inr values \<Rightarrow> Inr (np_array values)))))"

section \<open>A simulated PLC\<close>

text \<open>
  A small PLC to run the device against: each symbol name holds a scalar or an array of
  REAL values, a float being carried as its 32-bit pattern. A handle is the name with the
  declared array size. A named read of \<open>k\<close> floats gives the first \<open>k\<close> elements.
\<close>

datatype cell = Scalar "32 word pyvalue" | RealArray "32 word list"

type_synonym sim_plc = "string \<rightharpoonup> cell"

definition sim_connection :: "(sim_plc, string \<times> int, 32 word) connection" where
  "sim_connection =
     \<lparr>get_symbol = (\<lambda>p name. case p name of
                       None \<Rightarrow> Inl ADSError
                     | Some (Scalar v) \<Rightarrow> Inr (name, 1)
                     | Some (RealArray xs) \<Rightarrow> Inr (name, int (length xs))),
      array_size = snd,
      symbol_read = (\<lambda>h p. case p (fst h) of
                       Some (Scalar v) \<Rightarrow> Inr v
                     | _ \<Rightarrow> Inl ADSError),
      symbol_write = (\<lambda>h v p. Inr (p(fst h \<mapsto> Scalar v))),
      read_by_name = (\<lambda>name t p. case (t, p name) of
                       (C_array C_float k, Some (RealArray xs)) \<Rightarrow>
                          if k \<le> length xs then Inr (take k xs) else Inl ADSError
                     | _ \<Rightarrow> Inl ADSError)\<rparr>"

definition sim_memory :: sim_plc where
  "sim_memory =
     [''MAIN.x'' \<mapsto> Scalar (PyBool True),
      ''MAIN.y'' \<mapsto> Scalar (PyFloat 0),
      ''MAIN.array1'' \<mapsto> RealArray [1, 2, 3]]"

definition sim_manifest :: "string list" where
  "sim_manifest = [''MAIN.x, output, ro'', '' MAIN.y , setpoint,rw '']"

definition sim_device :: "(string \<times> int) device" where
  "sim_device = snd (initialize_dynamic_attributes sim_connection sim_memory sim_manifest new_device)"

section \<open>The invariant of registration\<close>

text \<open>
  Every attribute handed to \<^verbatim>\<open>add_attribute\<close> has an entry under its name in
  \<^verbatim>\<open>symbols\<close> and carries both handlers.
\<close>

definition attributes_bound :: "'h device \<Rightarrow> bool" where
  "attributes_bound dev = list_all (\<lambda>a. symbols dev (attr_name a) \<noteq> None
                             \<and> attr_fget a = Some Generic_read
                             \<and> attr_fset a = Some Generic_write) (attributes dev)"

section \<open>The loop, one line at a time\<close>

lemma process_line_malformed:
  "length (str_split (CHR '','') line) \<noteq> 3 \<Longrightarrow> process_line plc p line dev = (Inl ValueError, dev)"
  by (auto simp: process_line_def split: list.splits)

lemma process_line_unresolved:
  assumes "map str_strip (str_split (CHR '','') line) = [name, label, access]"
      and "get_symbol plc p name = Inl e"
  shows "process_line plc p line dev =
           (Inl e, dev\<lparr>log_debug := log_debug dev @ [init_message name label access]\<rparr>)"
  using assms by (simp add: process_line_def)


lemma process_line_unreadable:
  assumes "map str_strip (str_split (CHR '','') line) = [name, label, access]"
      and "get_symbol plc p name = Inr symbol"
      and "array_size plc symbol \<le> 1"
      and "symbol_read plc symbol p = Inl e"
  shows "process_line plc p line dev =
           (Inl e, dev\<lparr>log_debug := log_debug dev @ [init_message name label access],
                       symbols := (symbols dev)(label \<mapsto> symbol)\<rparr>)"
  using assms by (simp add: process_line_def)


lemma initialize_append:
  "initialize_dynamic_attributes plc p (xs @ ys) dev =
     (case initialize_dynamic_attributes plc p xs dev of
        (Inl e, d) \<Rightarrow> (Inl e, d)
      | (Inr u, d) \<Rightarrow> initialize_dynamic_attributes plc p ys d)"
  by (induction xs arbitrary: dev) (auto split: prod.splits sum.splits)

lemma attributes_bound_start: "attributes dev = [] \<Longrightarrow> attributes_bound dev"
  by (simp add: attributes_bound_def)

lemma attributes_bound_process_line:
  assumes "attributes_bound dev"
  shows "attributes_bound (snd (process_line plc p line dev))"
  using assms
  by (auto simp: process_line_def attributes_bound_def list_all_iff Let_def
           split: list.splits sum.splits)

lemma attributes_bound_initialize:
  "attributes_bound dev \<Longrightarrow> attributes_bound (snd (initialize_dynamic_attributes plc p ls dev))"
proof (induction ls arbitrary: dev)
  case Nil
  then show ?case by simp
next
  case (Cons l ls)
  from attributes_bound_process_line [OF Cons.prems, of plc p l] Cons.IH show ?case
    by (auto split: prod.splits sum.splits)
qed

lemma registered_attribute:
  assumes "attributes dev0 = []"
      and "initialize_dynamic_attributes plc p scalar_symbols dev0 = (r, dev)"
      and "a \<in> set (attributes dev)"
  shows "\<exists>symbol. symbols dev (attr_name a) = Some symbol"
    and "attr_fget a = Some Generic_read"
    and "attr_fset a = Some Generic_write"
proof -
  have "attributes_bound (snd (initialize_dynamic_attributes plc p scalar_symbols dev0))"
    by (rule attributes_bound_initialize [OF attributes_bound_start [OF assms(1)]])
  with assms show "\<exists>symbol. symbols dev (attr_name a) = Some symbol"
    and "attr_fget a = Some Generic_read"
    and "attr_fset a = Some Generic_write"
    by (auto simp: attributes_bound_def list_all_iff)
qed


lemmas sim_eval = process_line_def str_strip_def str_isspace_def sim_connection_def
  sim_memory_def sim_manifest_def new_device_def init_message_def

lemma sim_device_eq:
  "initialize_dynamic_attributes sim_connection sim_memory sim_manifest new_device =
     (Inr (),
      \<lparr>symbols = [''output'' \<mapsto> (''MAIN.x'', 1), ''setpoint'' \<mapsto> (''MAIN.y'', 1)],
       attributes =
         [\<lparr>attr_name = ''output'', attr_dtype = Bool_t, attr_access = READ,
           attr_fget = Some Generic_read, attr_fset = Some Generic_write\<rparr>,
          \<lparr>attr_name = ''setpoint'', attr_dtype = Float_t, attr_access = READ_WRITE,
           attr_fget = Some Generic_read, attr_fset = Some Generic_write\<rparr>],
       log_debug = [''init: MAIN.x, output, ro'', ''init: MAIN.y, setpoint, rw'']\<rparr>)"
  by (simp add: sim_eval)

section \<open>Claims about the construction of the attributes\<close>



text \<open>
  Claim C3, as the code has it. When a manifest line names a symbol that does not
  resolve, the initialisation fails wherever the line stands; it fails with the error of
  \<^verbatim>\<open>get_symbol\<close> when the lines before it went through; and the attributes added are
  those of the lines before it: none for the bad line, none for a later line.
\<close>

theorem unresolved_symbol_aborts:
  assumes "map str_strip (str_split (CHR '','') line) = [name, label, access]"
      and "get_symbol plc p name = Inl e"
  shows "(\<exists>e'. fst (initialize_dynamic_attributes plc p (pre @ line # post) dev) = Inl e')
       \<and> (fst (initialize_dynamic_attributes plc p pre dev) = Inr ()
            \<longrightarrow> fst (initialize_dynamic_attributes plc p (pre @ line # post) dev) = Inl e)
       \<and> attributes (snd (initialize_dynamic_attributes plc p (pre @ line # post) dev))
           = attributes (snd (initialize_dynamic_attributes plc p pre dev))"
  by (auto simp: initialize_append process_line_unresolved [OF assms]
           split: prod.splits sum.splits)

theorem unresolved_symbol_aborts_witness:
  "map str_strip (str_split (CHR '','') ''MAIN.missing, m, ro'') = [''MAIN.missing'', ''m'', ''ro'']
   \<and> get_symbol sim_connection sim_memory ''MAIN.missing'' = Inl ADSError
   \<and> fst (initialize_dynamic_attributes sim_connection sim_memory
             (sim_manifest @ ''MAIN.missing, m, ro'' # [''MAIN.x, late, ro'']) new_device)
       = Inl ADSError
   \<and> attributes (snd (initialize_dynamic_attributes sim_connection sim_memory
             (sim_manifest @ ''MAIN.missing, m, ro'' # [''MAIN.x, late, ro'']) new_device))
       = attributes sim_device"
proof -
  have f: "map str_strip (str_split (CHR '','') ''MAIN.missing, m, ro'')
             = [''MAIN.missing'', ''m'', ''ro'']"
    by (simp add: str_strip_def str_isspace_def)
  have g: "get_symbol sim_connection sim_memory ''MAIN.missing'' = Inl ADSError"
    by (simp add: sim_connection_def sim_memory_def)
  from unresolved_symbol_aborts [OF f g, of sim_manifest "[''MAIN.x, late, ro'']" new_device] f g
  show ?thesis
    by (simp add: sim_device_eq sim_device_def)
qed

text \<open>
  Claim C3 as it was stated says that no attribute at all is registered. With the bad
  line in second place the initialisation raises \<^verbatim>\<open>ADSError\<close>, and the attribute
  \<^verbatim>\<open>output\<close> of the first line has been added by then.
\<close>

theorem earlier_attributes_stay_counterexample:
  "get_symbol sim_connection sim_memory ''MAIN.missing'' = Inl ADSError
   \<and> fst (initialize_dynamic_attributes sim_connection sim_memory
            [''MAIN.x, output, ro'', ''MAIN.missing, m, ro''] new_device) = Inl ADSError
   \<and> map attr_name (attributes (snd (initialize_dynamic_attributes sim_connection sim_memory
            [''MAIN.x, output, ro'', ''MAIN.missing, m, ro''] new_device))) = [''output'']"
  by (simp add: sim_eval)


text \<open>
  Claim C5. A manifest line that does not split into exactly three fields raises
  \<^verbatim>\<open>ValueError\<close> and leaves the device as it was; a manifest that holds such a line
  fails, with this error when the lines before it went through; and no line after it is
  processed.
\<close>

theorem malformed_line_aborts:
  assumes "length (str_split (CHR '','') line) \<noteq> 3"
  shows "process_line plc p line dev = (Inl ValueError, dev)
       \<and> (\<exists>e. fst (initialize_dynamic_attributes plc p (pre @ line # post) dev) = Inl e)
       \<and> (fst (initialize_dynamic_attributes plc p pre dev) = Inr ()
            \<longrightarrow> fst (initialize_dynamic_attributes plc p (pre @ line # post) dev)
                  = Inl ValueError)
       \<and> initialize_dynamic_attributes plc p (pre @ line # post) dev
           = initialize_dynamic_attributes plc p (pre @ [line]) dev"
  by (auto simp: initialize_append process_line_malformed [OF assms]
           split: prod.splits sum.splits)

theorem malformed_line_aborts_witness:
  "length (str_split (CHR '','') ''MAIN.x, output'') \<noteq> 3
   \<and> process_line sim_connection sim_memory ''MAIN.x, output'' sim_device
       = (Inl ValueError, sim_device)
   \<and> fst (initialize_dynamic_attributes sim_connection sim_memory
            (sim_manifest @ ''MAIN.x, output'' # [''MAIN.x, late, ro'']) new_device)
       = Inl ValueError"
proof -
  have f: "length (str_split (CHR '','') ''MAIN.x, output'') \<noteq> 3"
    by simp
  have pre: "fst (initialize_dynamic_attributes sim_connection sim_memory sim_manifest new_device)
               = Inr ()"
    by (simp add: sim_device_eq)
  from malformed_line_aborts [OF f, of sim_connection sim_memory sim_device "[]" "[]"]
  have one: "process_line sim_connection sim_memory ''MAIN.x, output'' sim_device
               = (Inl ValueError, sim_device)"
    by (rule conjunct1)
  from malformed_line_aborts [OF f, of sim_connection sim_memory new_device sim_manifest
                                 "[''MAIN.x, late, ro'']"] pre
  have "fst (initialize_dynamic_attributes sim_connection sim_memory
               (sim_manifest @ ''MAIN.x, output'' # [''MAIN.x, late, ro'']) new_device)
          = Inl ValueError"
    by blast
  with f one show ?thesis
    by blast
qed



text \<open>
  Claim C9. Every attribute that the initialisation of a device without attributes
  registered has \<^verbatim>\<open>generic_write\<close> as its setter and \<^verbatim>\<open>generic_read\<close> as its getter,
  whatever its access. So a client's write never fails for want of a handler: it is
  rejected exactly when the access of the attribute is \<open>READ\<close>, and with access
  \<open>READ_WRITE\<close> it is the call of \<^verbatim>\<open>generic_write\<close>.
\<close>

theorem write_handler_always_bound:
  assumes "attributes dev0 = []"
      and "initialize_dynamic_attributes plc p scalar_symbols dev0 = (r, dev)"
      and "a \<in> set (attributes dev)"
  shows "attr_fset a = Some Generic_write \<and> attr_fget a = Some Generic_read
       \<and> client_write plc dev a v q \<noteq> No_handler
       \<and> (client_write plc dev a v q = Access_violation \<longleftrightarrow> attr_access a = READ)
       \<and> (attr_access a = READ_WRITE
            \<longrightarrow> client_write plc dev a v q
                  = Called (generic_write plc dev (attr_name a) v q))"
proof -
  from registered_attribute(2,3) [OF assms]
  have h: "attr_fset a = Some Generic_write" "attr_fget a = Some Generic_read"
    by simp_all
  then show ?thesis
    by (cases "attr_access a") (simp_all add: client_write_def)
qed

theorem write_handler_always_bound_witness:
  "attr_name (hd (attributes sim_device)) = ''output''
   \<and> attr_access (hd (attributes sim_device)) = READ
   \<and> attr_fset (hd (attributes sim_device)) = Some Generic_write
   \<and> attr_fget (hd (attributes sim_device)) = Some Generic_read
   \<and> client_write sim_connection sim_device (hd (attributes sim_device)) (PyBool False) sim_memory
       = Access_violation
   \<and> attr_access (last (attributes sim_device)) = READ_WRITE
   \<and> client_write sim_connection sim_device (last (attributes sim_device))
         (PyFloat 0x40600000) sim_memory
       = Called (generic_write sim_connection sim_device ''setpoint''
                   (PyFloat 0x40600000) sim_memory)"
proof -
  have empty: "attributes (new_device :: (string \<times> int) device) = []"
    by (simp add: new_device_def)
  have init: "initialize_dynamic_attributes sim_connection sim_memory sim_manifest new_device
                = (Inr (), sim_device)"
    by (simp add: sim_device_def sim_device_eq)
  have reg: "hd (attributes sim_device) \<in> set (attributes sim_device)"
    by (simp add: sim_device_def sim_device_eq)
  have reg': "last (attributes sim_device) \<in> set (attributes sim_device)"
    by (simp add: sim_device_def sim_device_eq)
  have nm: "attr_name (hd (attributes sim_device)) = ''output''"
    by (simp add: sim_device_def sim_device_eq)
  have nm': "attr_name (last (attributes sim_device)) = ''setpoint''"
    by (simp add: sim_device_def sim_device_eq)
  have ro: "attr_access (hd (attributes sim_device)) = READ"
    by (simp add: sim_device_def sim_device_eq)
  have rw: "attr_access (last (attributes sim_device)) = READ_WRITE"
    by (simp add: sim_device_def sim_device_eq)
  from write_handler_always_bound [OF empty init reg, of "PyBool False" sim_memory] ro
  have one: "attr_fset (hd (attributes sim_device)) = Some Generic_write
           \<and> attr_fget (hd (attributes sim_device)) = Some Generic_read
           \<and> client_write sim_connection sim_device (hd (attributes sim_device))
                (PyBool False) sim_memory = Access_violation"
    by blast
  from write_handler_always_bound [OF empty init reg', of "PyFloat 0x40600000" sim_memory] rw nm'
  have two: "client_write sim_connection sim_device (last (attributes sim_device))
               (PyFloat 0x40600000) sim_memory
             = Called (generic_write sim_connection sim_device ''setpoint''
                         (PyFloat 0x40600000) sim_memory)"
    by simp
  from nm ro rw one two show ?thesis
    by blast
qed

section \<open>Claims about the generic handlers\<close>

text \<open>
  Claim C4. Let the PLC give back what was written: a read through a handle, on the PLC
  as a successful write through that handle left it, returns the written value. Then for
  every attribute that the initialisation of a device without attributes registered with
  access \<open>READ_WRITE\<close>, a successful \<^verbatim>\<open>generic_write\<close> followed by \<^verbatim>\<open>generic_read\<close> on
  the resulting PLC returns the written value.
\<close>

theorem write_then_read_roundtrip:
  assumes "\<forall>h v q q'. symbol_write plc h v q = Inr q' \<longrightarrow> symbol_read plc h q' = Inr v"
      and "attributes dev0 = []"
      and "initialize_dynamic_attributes plc p scalar_symbols dev0 = (r, dev)"
      and "a \<in> set (attributes dev)"
      and "attr_access a = READ_WRITE"
      and "generic_write plc dev (attr_name a) v q = Inr q'"
  shows "generic_read plc dev (attr_name a) q' = Inr v"
proof -
  from registered_attribute(1) [OF assms(2,3,4)]
  obtain symbol where s: "symbols dev (attr_name a) = Some symbol" ..
  with assms(6) have "symbol_write plc symbol v q = Inr q'"
    by (simp add: generic_write_def)
  with assms(1) have "symbol_read plc symbol q' = Inr v"
    by blast
  with s show ?thesis
    by (simp add: generic_read_def)
qed

theorem write_then_read_roundtrip_witness:
  "attr_access (last (attributes sim_device)) = READ_WRITE
   \<and> generic_write sim_connection sim_device ''setpoint'' (PyFloat 0x40600000) sim_memory
       = Inr (sim_memory(''MAIN.y'' \<mapsto> Scalar (PyFloat 0x40600000)))
   \<and> generic_read sim_connection sim_device ''setpoint''
         (sim_memory(''MAIN.y'' \<mapsto> Scalar (PyFloat 0x40600000)))
       = Inr (PyFloat 0x40600000)"
proof -
  have store: "\<forall>h v q q'. symbol_write sim_connection h v q = Inr q'
                 \<longrightarrow> symbol_read sim_connection h q' = Inr v"
    by (auto simp: sim_connection_def)
  have empty: "attributes (new_device :: (string \<times> int) device) = []"
    by (simp add: new_device_def)
  have init: "initialize_dynamic_attributes sim_connection sim_memory sim_manifest new_device
                = (Inr (), sim_device)"
    by (simp add: sim_device_def sim_device_eq)
  have reg: "last (attributes sim_device) \<in> set (attributes sim_device)"
    by (simp add: sim_device_def sim_device_eq)
  have rw: "attr_access (last (attributes sim_device)) = READ_WRITE"
    by (simp add: sim_device_def sim_device_eq)
  have nm: "attr_name (last (attributes sim_device)) = ''setpoint''"
    by (simp add: sim_device_def sim_device_eq)
  have sy: "symbols sim_device ''setpoint'' = Some (''MAIN.y'', 1)"
    by (simp add: sim_device_def sim_device_eq)
  have wr: "generic_write sim_connection sim_device (attr_name (last (attributes sim_device)))
              (PyFloat 0x40600000) sim_memory
            = Inr (sim_memory(''MAIN.y'' \<mapsto> Scalar (PyFloat 0x40600000)))"
    by (simp add: nm sy generic_write_def sim_connection_def)
  from write_then_read_roundtrip [OF store empty init reg rw wr] rw wr
  show ?thesis
    by (simp add: nm)
qed

text \<open>
  Claim C8. For every attribute that the initialisation of a device without attributes
  registered, \<^verbatim>\<open>symbols\<close> has a handle under its name, and \<^verbatim>\<open>generic_read\<close> on any PLC state is the read through that
  handle on that very state: the handler keeps no value of its own.
\<close>

theorem generic_read_is_live:
  assumes "attributes dev0 = []"
      and "initialize_dynamic_attributes plc p scalar_symbols dev0 = (r, dev)"
      and "a \<in> set (attributes dev)"
  shows "\<exists>symbol. symbols dev (attr_name a) = Some symbol
                 \<and> (\<forall>q. generic_read plc dev (attr_name a) q = symbol_read plc symbol q)"
proof -
  from registered_attribute(1) [OF assms]
  obtain symbol where "symbols dev (attr_name a) = Some symbol" ..
  then show ?thesis
    by (simp add: generic_read_def)
qed

theorem generic_read_is_live_witness:
  "attr_name (hd (attributes sim_device)) = ''output''
   \<and> generic_read sim_connection sim_device ''output'' sim_memory = Inr (PyBool True)
   \<and> generic_read sim_connection sim_device ''output''
        (sim_memory(''MAIN.x'' \<mapsto> Scalar (PyBool False))) = Inr (PyBool False)"
proof -
  have empty: "attributes (new_device :: (string \<times> int) device) = []"
    by (simp add: new_device_def)
  have init: "initialize_dynamic_attributes sim_connection sim_memory sim_manifest new_device
                = (Inr (), sim_device)"
    by (simp add: sim_device_def sim_device_eq)
  have reg: "hd (attributes sim_device) \<in> set (attributes sim_device)"
    by (simp add: sim_device_def sim_device_eq)
  have nm: "attr_name (hd (attributes sim_device)) = ''output''"
    by (simp add: sim_device_def sim_device_eq)
  have sy: "symbols sim_device ''output'' = Some (''MAIN.x'', 1)"
    by (simp add: sim_device_def sim_device_eq)
  from generic_read_is_live [OF empty init reg] nm sy
  have "generic_read sim_connection sim_device ''output'' q
          = symbol_read sim_connection (''MAIN.x'', 1) q" for q
    by auto
  with nm show ?thesis
    by (simp add: sim_connection_def sim_memory_def)
qed

section \<open>Claims about the command read\_float\_array\<close>

text \<open>
  Claim C2 says that a negative count reads the whole declared array, as the docstring of
  the command does. The code multiplies the count with \<^verbatim>\<open>PLCTYPE_REAL\<close> whatever its
  sign, and for the count \<open>-1\<close> that product raises \<^verbatim>\<open>ValueError\<close> before any read, on
  every connection and every PLC.
\<close>

theorem negative_count_raises:
  "read_float_array plc dev p ([- 1], [''MAIN.array1'']) = Inl ValueError"
  by (simp add: read_float_array_def ctype_repeat_def)

text \<open>
  Claim C7. For a count that is not negative the command returns, unchanged and in
  order, what \<^verbatim>\<open>read_by_name\<close> gives for the array type of that many \<^verbatim>\<open>c_float\<close>; the
  result is the same for every content of the device, so the symbol table plays no part;
  and when the connection returns as many elements as the array type has, the result
  has exactly \<open>count\<close> elements.
\<close>

theorem read_float_array_count:
  assumes "0 \<le> sint npts"
      and "\<forall>n k q vs. read_by_name plc n (C_array C_float k) q = Inr vs \<longrightarrow> length vs = k"
  shows "read_float_array plc dev p ([npts], [name])
           = read_by_name plc name (C_array C_float (nat (sint npts))) p
       \<and> read_float_array plc dev p ([npts], [name])
           = read_float_array plc dev' p ([npts], [name])
       \<and> (\<forall>vs. read_float_array plc dev p ([npts], [name]) = Inr vs
              \<longrightarrow> int (length vs) = sint npts)"
proof -
  have eq: "read_float_array plc d p ([npts], [name])
              = read_by_name plc name (C_array C_float (nat (sint npts))) p" for d
    using assms(1)
    by (simp add: read_float_array_def ctype_repeat_def PLCTYPE_REAL_def np_array_def
             split: sum.splits)
  from eq [of dev] eq [of dev'] assms show ?thesis
    by auto
qed

theorem read_float_array_count_witness:
  "0 \<le> sint (2 :: 32 word)
   \<and> read_float_array sim_connection sim_device sim_memory ([2], [''MAIN.array1'']) = Inr [1, 2]
   \<and> read_float_array sim_connection new_device sim_memory ([2], [''MAIN.array1'']) = Inr [1, 2]"
proof -
  have c: "0 \<le> sint (2 :: 32 word)"
    by simp
  have len: "\<forall>n k q vs. read_by_name sim_connection n (C_array C_float k) q = Inr vs
               \<longrightarrow> length vs = k"
    by (auto simp: sim_connection_def split: option.splits cell.splits if_splits)
  note t = read_float_array_count [where plc = sim_connection and dev = sim_device
                                    and p = sim_memory and name = "''MAIN.array1''"
                                    and dev' = new_device, OF c len]
  have rd: "read_by_name sim_connection ''MAIN.array1''
              (C_array C_float (nat (sint (2 :: 32 word)))) sim_memory = Inr [1, 2]"
    by (simp add: sim_connection_def sim_memory_def)
  from t have "read_float_array sim_connection sim_device sim_memory ([2], [''MAIN.array1''])
                 = read_by_name sim_connection ''MAIN.array1''
                     (C_array C_float (nat (sint (2 :: 32 word)))) sim_memory"
    by (rule conjunct1)
  with rd have one: "read_float_array sim_connection sim_device sim_memory
                       ([2], [''MAIN.array1'']) = Inr [1, 2]"
    by simp
  from t have "read_float_array sim_connection sim_device sim_memory ([2], [''MAIN.array1''])
                 = read_float_array sim_connection new_device sim_memory ([2], [''MAIN.array1''])"
    by blast
  with one have "read_float_array sim_connection new_device sim_memory
                   ([2], [''MAIN.array1'']) = Inr [1, 2]"
    by simp
  with c one show ?thesis
    by blast
qed

text \<open>
  Claim C10. The first integer of the argument is the count and the first string is the
  symbol name: the command raises \<^verbatim>\<open>ValueError\<close> when that integer is negative and
  otherwise returns the named read of that many \<^verbatim>\<open>c_float\<close> at that name. Further
  elements of either array change nothing.
\<close>

theorem only_first_elements_used:
  "read_float_array plc dev p (npts # more_counts, name # more_names)
     = (if sint npts < 0 then Inl ValueError
        else read_by_name plc name (C_array C_float (nat (sint npts))) p)
   \<and> read_float_array plc dev p (npts # more_counts, name # more_names)
     = read_float_array plc dev p ([npts], [name])"
  by (simp add: read_float_array_def ctype_repeat_def PLCTYPE_REAL_def np_array_def
           split: sum.splits)

theorem only_first_elements_used_witness:
  "read_float_array sim_connection sim_device sim_memory
     ([2, 3], [''MAIN.array1'', ''MAIN.x'']) = Inr [1, 2]
   \<and> read_float_array sim_connection sim_device sim_memory
     ([3, 2], [''MAIN.array1'', ''MAIN.x'']) = Inr [1, 2, 3]
   \<and> read_float_array sim_connection sim_device sim_memory
     ([2, 3], [''MAIN.x'', ''MAIN.array1'']) = Inl ADSError"
proof -
  have a: "read_float_array sim_connection sim_device sim_memory
             ([2, 3], [''MAIN.array1'', ''MAIN.x'']) = Inr [1, 2]"
    using only_first_elements_used [of sim_connection sim_device sim_memory 2 "[3]"
                                       "''MAIN.array1''" "[''MAIN.x'']"]
    by (simp add: sim_connection_def sim_memory_def)
  have b: "read_float_array sim_connection sim_device sim_memory
             ([3, 2], [''MAIN.array1'', ''MAIN.x'']) = Inr [1, 2, 3]"
    using only_first_elements_used [of sim_connection sim_device sim_memory 3 "[2]"
                                       "''MAIN.array1''" "[''MAIN.x'']"]
    by (simp add: sim_connection_def sim_memory_def)
  have c: "read_float_array sim_connection sim_device sim_memory
             ([2, 3], [''MAIN.x'', ''MAIN.array1'']) = Inl ADSError"
    using only_first_elements_used [of sim_connection sim_device sim_memory 2 "[3]"
                                       "''MAIN.x''" "[''MAIN.array1'']"]
    by (simp add: sim_connection_def sim_memory_def)
  from a b c show ?thesis
    by blast
qed

end
